theory Spec2Isabelle
  imports Complex_Main
begin

section \<open>Python values\<close>

text \<open>
  A Python \<open>str\<close> is a sequence of Unicode code points; it is modelled as a list of
  natural numbers, one per code point. String literals of the source are written with
  \<open>lit\<close>. Confidence values are Python floats that the code only compares with the
  literal \<open>0.5\<close>; they are modelled as reals (a NaN, which compares false both ways,
  is outside the model). The three \<open>print\<close> calls of \<open>get_response\<close> are modelled,
  since each of them can raise; the progress messages of the trainer, which runs from a
  console, are left out.
\<close>

type_synonym pystr = "nat list"

definition lit :: "string \<Rightarrow> pystr" where
  "lit s = map of_char s"

text \<open>
  The exceptions the modelled code and its library can raise. All of them derive from
  \<open>Exception\<close>, so the handler \<open>except Exception\<close> catches every one of them.
  \<open>UnknownLabel\<close> and \<open>UnknownCode\<close> are the two failures the specification gives the
  Label Codec.
\<close>

datatype py_error =
    ValueError
  | IndexError
  | KeyError
  | AttributeError
  | NotFittedError
  | FileNotFoundError
  | UnicodeEncodeError
  | UnknownLabel
  | UnknownCode

text \<open>
  \<open>str.isspace\<close> on one code point: the white space table of CPython
  (U+0009..U+000D, U+001C..U+0020, U+0085, U+00A0, U+1680, U+2000..U+200A, U+2028,
  U+2029, U+202F, U+205F, U+3000). \<open>str.strip()\<close> removes leading and trailing white
  space.
\<close>

definition isspace :: "nat \<Rightarrow> bool" where
  "isspace c \<longleftrightarrow>
     (9 \<le> c \<and> c \<le> 13) \<or> (28 \<le> c \<and> c \<le> 32) \<or> c = 133 \<or> c = 160 \<or> c = 5760 \<or>
     (8192 \<le> c \<and> c \<le> 8202) \<or> c = 8232 \<or> c = 8233 \<or> c = 8239 \<or> c = 8287 \<or>
     c = 12288"

definition strip :: "pystr \<Rightarrow> pystr" where
  "strip s = rev (dropWhile isspace (rev (dropWhile isspace s)))"

text \<open>
  \<open>random.choice(seq)\<close> raises \<open>IndexError\<close> on an empty sequence and returns
  \<open>seq[self._randbelow(len(seq))]\<close> otherwise. The argument \<open>k\<close> is the value
  \<open>_randbelow\<close> returns in this call; CPython returns a value below \<open>len(seq)\<close>, and
  the subscript raises \<open>IndexError\<close> on any other.
\<close>

definition random_choice :: "nat \<Rightarrow> 'a list \<Rightarrow> py_error + 'a" where
  "random_choice k seq =
     (if seq = [] then Inl IndexError
      else if k < length seq then Inr (seq ! k) else Inl IndexError)"

text \<open>
  What \<open>get_response\<close> prints: the query, the intent with its confidence, and the
  exception the handler caught.
\<close>

datatype log_line =
    User_Line pystr
  | Intent_Line pystr real
  | Error_Line py_error

text \<open>
  The standard output Python opens by default: a UTF-8 stream with strict error
  handling. Writing a text that holds a surrogate code point (U+D800 to U+DFFF) raises
  \<open>UnicodeEncodeError\<close>; the message of an exception is printable.
\<close>

definition surrogate :: "nat \<Rightarrow> bool" where
  "surrogate c \<longleftrightarrow> 55296 \<le> c \<and> c \<le> 57343"

definition utf8_print :: "log_line \<Rightarrow> py_error option" where
  "utf8_print l =
     (case l of
        User_Line s \<Rightarrow> if list_ex surrogate s then Some UnicodeEncodeError else None
      | Intent_Line s p \<Rightarrow> if list_ex surrogate s then Some UnicodeEncodeError else None
      | Error_Line e \<Rightarrow> None)"

text \<open>
  \<open>np.max\<close> of a two-dimensional array: the maximum over all entries; a
  \<open>ValueError\<close> when the array has none.
\<close>

definition np_max :: "real list list \<Rightarrow> py_error + real" where
  "np_max a = (case concat a of [] \<Rightarrow> Inl ValueError | x # xs \<Rightarrow> Inr (fold max xs x))"

text \<open>The subscript \<open>[0]\<close> on a sequence.\<close>

definition item0 :: "'a list \<Rightarrow> py_error + 'a" where
  "item0 xs = (case xs of [] \<Rightarrow> Inl IndexError | x # _ \<Rightarrow> Inr x)"

section \<open>The library the code calls\<close>

text \<open>
  The three fitted objects both programs hold: the TF-IDF vectorizer, the label encoder
  and the classifier (\<open>None\<close> until \<open>train\<close> sets it). Their classes belong to
  scikit-learn, so the objects are opaque (type variables) and every method the source
  calls on them is a field of the library record below. A method that can raise returns
  a sum, the exception on the left. A feature matrix is a list of rows. \<open>str.lower\<close>
  follows the case tables of Unicode and is a field of the record as well. So is
  \<open>print\<close>: whether writing a line to the standard output raises, and what, depends on
  the stream the process runs with; \<open>None\<close> is a line written.
\<close>

record ('v, 'l, 'c) model_bundle =
  vectorizer :: 'v
  label_encoder :: 'l
  classifier :: "'c option"

record ('v, 'l, 'c) serving_lib =
  str_lower :: "pystr \<Rightarrow> pystr"
  vec_transform :: "'v \<Rightarrow> pystr list \<Rightarrow> py_error + real list list"
  clf_predict :: "'c \<Rightarrow> real list list \<Rightarrow> py_error + int list"
  clf_predict_proba :: "'c \<Rightarrow> real list list \<Rightarrow> py_error + real list list"
  le_inverse_transform :: "'l \<Rightarrow> int list \<Rightarrow> py_error + pystr list"
  print_line :: "log_line \<Rightarrow> py_error option"

section \<open>app.py\<close>

record ('v, 'l, 'c) SimpleDekutChatbot = "('v, 'l, 'c) model_bundle" +
  tag_responses :: "pystr \<rightharpoonup> pystr list"

record intent =
  tag :: pystr
  patterns :: "pystr list"
  responses :: "pystr list"

text \<open>
  The loop of \<open>__init__\<close> that fills \<open>self.tag_responses\<close>: a later intent with the
  same tag overwrites an earlier one.
\<close>

fun create_response_mapping ::
  "intent list \<Rightarrow> (pystr \<rightharpoonup> pystr list) \<Rightarrow> (pystr \<rightharpoonup> pystr list)" where
  "create_response_mapping [] m = m"
| "create_response_mapping (i # rest) m =
     create_response_mapping rest (m(tag i \<mapsto> responses i))"

definition fallbacks :: "pystr list" where
  "fallbacks =
     [lit ''I'm not sure about that. Please visit https://dkut.ac.ke'',
      lit ''Could you rephrase your question?'',
      lit ''I'm still learning about that topic.'',
      lit ''Please contact admissions@dkut.ac.ke for more information.'']"

text \<open>
  The prediction steps of \<open>get_response\<close> on their own, lines 53 to 60: lower-case,
  transform, predict, the maximum of \<open>predict_proba\<close>, \<open>inverse_transform\<close> and its
  first item. They yield the intent and the confidence the rest of the block uses.
\<close>

definition get_response_prediction ::
  "('v, 'l, 'c, 'z) serving_lib_scheme \<Rightarrow> ('v, 'l, 'c) SimpleDekutChatbot \<Rightarrow> pystr \<Rightarrow>
     py_error + (pystr \<times> real)" where
  "get_response_prediction lib self user_input =
     (case vec_transform lib (vectorizer self) [str_lower lib user_input] of
        Inl e \<Rightarrow> Inl e
      | Inr X \<Rightarrow>
     (case classifier self of
        None \<Rightarrow> Inl AttributeError
      | Some clf \<Rightarrow>
     (case clf_predict lib clf X of
        Inl e \<Rightarrow> Inl e
      | Inr prediction \<Rightarrow>
     (case clf_predict_proba lib clf X of
        Inl e \<Rightarrow> Inl e
      | Inr proba \<Rightarrow>
     (case np_max proba of
        Inl e \<Rightarrow> Inl e
      | Inr probability \<Rightarrow>
     (case le_inverse_transform lib (label_encoder self) prediction of
        Inl e \<Rightarrow> Inl e
      | Inr decoded \<Rightarrow>
     (case item0 decoded of
        Inl e \<Rightarrow> Inl e
      | Inr intent \<Rightarrow> Inr (intent, probability))))))))"

text \<open>
  The body of the \<open>try\<close> block of \<open>get_response\<close>, lines 52 to 75, with its two
  \<open>print\<close> calls between the prediction steps and the threshold test.
\<close>

definition get_response_try ::
  "('v, 'l, 'c, 'z) serving_lib_scheme \<Rightarrow> ('v, 'l, 'c) SimpleDekutChatbot \<Rightarrow> nat \<Rightarrow>
     pystr \<Rightarrow> py_error + pystr" where
  "get_response_try lib self r user_input =
     (case vec_transform lib (vectorizer self) [str_lower lib user_input] of
        Inl e \<Rightarrow> Inl e
      | Inr X \<Rightarrow>
     (case classifier self of
        None \<Rightarrow> Inl AttributeError
      | Some clf \<Rightarrow>
     (case clf_predict lib clf X of
        Inl e \<Rightarrow> Inl e
      | Inr prediction \<Rightarrow>
     (case clf_predict_proba lib clf X of
        Inl e \<Rightarrow> Inl e
      | Inr proba \<Rightarrow>
     (case np_max proba of
        Inl e \<Rightarrow> Inl e
      | Inr probability \<Rightarrow>
     (case le_inverse_transform lib (label_encoder self) prediction of
        Inl e \<Rightarrow> Inl e
      | Inr decoded \<Rightarrow>
     (case item0 decoded of
        Inl e \<Rightarrow> Inl e
      | Inr intent \<Rightarrow>
     (case print_line lib (User_Line user_input) of
        Some e \<Rightarrow> Inl e
      | None \<Rightarrow>
     (case print_line lib (Intent_Line intent probability) of
        Some e \<Rightarrow> Inl e
      | None \<Rightarrow>
          (if probability > 0.5 \<and> intent \<in> dom (tag_responses self)
           then random_choice r (the (tag_responses self intent))
           else random_choice r fallbacks))))))))))"

text \<open>
  \<open>get_response\<close>: the blank check, then the \<open>try\<close> block, whose handler prints the
  exception and returns the fixed apology. The \<open>print\<close> of the handler is not
  protected: an exception it raises leaves the method.
\<close>

definition get_response ::
  "('v, 'l, 'c, 'z) serving_lib_scheme \<Rightarrow> ('v, 'l, 'c) SimpleDekutChatbot \<Rightarrow> nat \<Rightarrow>
     pystr \<Rightarrow> py_error + pystr" where
  "get_response lib self r user_input =
     (if strip user_input = [] then Inr (lit ''Please type a question.'')
      else
        (case get_response_try lib self r user_input of
           Inl e \<Rightarrow>
             (case print_line lib (Error_Line e) of
                Some e' \<Rightarrow> Inl e'
              | None \<Rightarrow> Inr (lit ''I'm having trouble understanding. Please try again.''))
         | Inr answer \<Rightarrow> Inr answer))"

text \<open>
  The \<open>/chat\<close> handler. The request is the \<open>message\<close> field of the posted JSON
  object (\<open>None\<close> when the key is absent, which \<open>get\<close> replaces by the empty string);
  the reply is the JSON object the handler returns.
\<close>

record json_reply =
  response :: pystr
  success :: "bool option"

definition chat ::
  "('v, 'l, 'c, 'z) serving_lib_scheme \<Rightarrow> ('v, 'l, 'c) SimpleDekutChatbot \<Rightarrow> nat \<Rightarrow>
     pystr option \<Rightarrow> py_error + json_reply" where
  "chat lib chatbot r message =
     (let user_message = strip (case message of None \<Rightarrow> [] | Some m \<Rightarrow> m) in
      if user_message = []
      then Inr \<lparr>response = lit ''Please enter a message.'', success = None\<rparr>
      else
        (case get_response lib chatbot r user_message of
           Inl e \<Rightarrow> Inl e
         | Inr answer \<Rightarrow> Inr \<lparr>response = answer, success = Some True\<rparr>))"

section \<open>train.py\<close>

text \<open>
  The part of scikit-learn only the trainer uses. The constructors take the keyword
  arguments the source passes (\<open>max_features\<close> and \<open>ngram_range\<close>; \<open>max_iter\<close> and
  \<open>random_state\<close>). \<open>train_test_split\<close> takes \<open>test_size\<close> and \<open>random_state\<close>
  (\<open>None\<close> when the keyword is left out). A call that may draw random numbers also
  takes the state of NumPy's global generator and returns the state it leaves.
\<close>

record ('v, 'l, 'c, 'g) training_lib = "('v, 'l, 'c) serving_lib" +
  TfidfVectorizer :: "nat \<Rightarrow> nat \<times> nat \<Rightarrow> 'v"
  vec_fit_transform :: "'v \<Rightarrow> pystr list \<Rightarrow> py_error + ('v \<times> real list list)"
  LabelEncoder :: 'l
  le_fit_transform :: "'l \<Rightarrow> pystr list \<Rightarrow> py_error + ('l \<times> int list)"
  train_test_split ::
    "real list list \<Rightarrow> int list \<Rightarrow> real \<Rightarrow> int option \<Rightarrow> 'g \<Rightarrow>
       (py_error + (real list list \<times> real list list \<times> int list \<times> int list)) \<times> 'g"
  LogisticRegression :: "nat \<Rightarrow> int option \<Rightarrow> 'c"
  clf_fit :: "'c \<Rightarrow> real list list \<Rightarrow> int list \<Rightarrow> 'g \<Rightarrow> (py_error + 'c) \<times> 'g"
  accuracy_score :: "int list \<Rightarrow> int list \<Rightarrow> py_error + real"

text \<open>
  What the trainer reads and writes outside its own object: the files (the intents
  document and the three saved artifacts), the directories that exist, and the state of
  the global random generator. Writing a file always succeeds in this model.
\<close>

datatype ('v, 'l, 'c) artifact =
    Intents_Json "intent list"
  | Pickled_Vectorizer 'v
  | Pickled_Label_Encoder 'l
  | Joblib_Classifier "'c option"

record ('v, 'l, 'c, 'g) world =
  files :: "string \<rightharpoonup> ('v, 'l, 'c) artifact"
  dirs :: "string set"
  np_random :: 'g

record ('v, 'l, 'c) SimpleIntentClassifier = "('v, 'l, 'c) model_bundle" +
  intents_file :: string

definition SimpleIntentClassifier_init ::
  "('v, 'l, 'c, 'g) training_lib \<Rightarrow> string \<Rightarrow> ('v, 'l, 'c) SimpleIntentClassifier" where
  "SimpleIntentClassifier_init lib file =
     \<lparr>vectorizer = TfidfVectorizer lib 1000 (1, 2),
      label_encoder = LabelEncoder lib,
      classifier = None,
      intents_file = file\<rparr>"

text \<open>
  \<open>load_intents\<close>: a missing file raises \<open>FileNotFoundError\<close>, a file that is not an
  intents document makes \<open>json.load\<close> raise a \<open>ValueError\<close>.
\<close>

definition load_intents ::
  "('v, 'l, 'c) SimpleIntentClassifier \<Rightarrow> ('v, 'l, 'c, 'g) world \<Rightarrow> py_error + intent list" where
  "load_intents self w =
     (case files w (intents_file self) of
        None \<Rightarrow> Inl FileNotFoundError
      | Some (Intents_Json d) \<Rightarrow> Inr d
      | Some _ \<Rightarrow> Inl ValueError)"

text \<open>
  The two nested loops of \<open>prepare_data\<close>; the accumulator is the pair of lists
  \<open>patterns\<close> and \<open>tags\<close>, each \<open>append\<close> adds at the end.
\<close>

fun prepare_patterns ::
  "(pystr \<Rightarrow> pystr) \<Rightarrow> pystr \<Rightarrow> pystr list \<Rightarrow> pystr list \<times> pystr list \<Rightarrow>
     pystr list \<times> pystr list" where
  "prepare_patterns lower t [] acc = acc"
| "prepare_patterns lower t (pattern # rest) (ps, ts) =
     prepare_patterns lower t rest (ps @ [lower pattern], ts @ [t])"

fun prepare_intents ::
  "(pystr \<Rightarrow> pystr) \<Rightarrow> intent list \<Rightarrow> pystr list \<times> pystr list \<Rightarrow>
     pystr list \<times> pystr list" where
  "prepare_intents lower [] acc = acc"
| "prepare_intents lower (i # rest) acc =
     prepare_intents lower rest (prepare_patterns lower (tag i) (patterns i) acc)"

definition prepare_data ::
  "('v, 'l, 'c, 'z) serving_lib_scheme \<Rightarrow> ('v, 'l, 'c) SimpleIntentClassifier \<Rightarrow>
     ('v, 'l, 'c, 'g) world \<Rightarrow> py_error + (pystr list \<times> pystr list)" where
  "prepare_data lib self w =
     (case load_intents self w of
        Inl e \<Rightarrow> Inl e
      | Inr data \<Rightarrow> Inr (prepare_intents (str_lower lib) data ([], [])))"

definition save_model ::
  "('v, 'l, 'c) SimpleIntentClassifier \<Rightarrow> ('v, 'l, 'c, 'g) world \<Rightarrow> ('v, 'l, 'c, 'g) world" where
  "save_model self w =
     (let w1 = (if ''models'' \<in> dirs w then w else w\<lparr>dirs := insert ''models'' (dirs w)\<rparr>)
      in w1\<lparr>files := (files w1)
           (''models/tfidf_vectorizer.pkl'' \<mapsto> Pickled_Vectorizer (vectorizer self),
            ''models/label_encoder.pkl'' \<mapsto> Pickled_Label_Encoder (label_encoder self),
            ''models/intent_classifier.joblib'' \<mapsto> Joblib_Classifier (classifier self))\<rparr>)"

text \<open>
  \<open>train\<close> returns the accuracy or the exception that ended it, together with the
  object and the world as the call leaves them.
\<close>

definition train ::
  "('v, 'l, 'c, 'g) training_lib \<Rightarrow> ('v, 'l, 'c) SimpleIntentClassifier \<Rightarrow>
     ('v, 'l, 'c, 'g) world \<Rightarrow>
     (py_error + real) \<times> ('v, 'l, 'c) SimpleIntentClassifier \<times> ('v, 'l, 'c, 'g) world" where
  "train lib self w =
     (case prepare_data lib self w of
        Inl e \<Rightarrow> (Inl e, self, w)
      | Inr (ps, ts) \<Rightarrow>
     (case vec_fit_transform lib (vectorizer self) ps of
        Inl e \<Rightarrow> (Inl e, self, w)
      | Inr (v, X) \<Rightarrow>
     (let self1 = self\<lparr>vectorizer := v\<rparr> in
      case le_fit_transform lib (label_encoder self1) ts of
        Inl e \<Rightarrow> (Inl e, self1, w)
      | Inr (l, y) \<Rightarrow>
     (let self2 = self1\<lparr>label_encoder := l\<rparr> in
      case train_test_split lib X y 0.2 (Some 42) (np_random w) of
        (Inl e, g1) \<Rightarrow> (Inl e, self2, w\<lparr>np_random := g1\<rparr>)
      | (Inr (X_train, X_test, y_train, y_test), g1) \<Rightarrow>
     (let self3 = self2\<lparr>classifier := Some (LogisticRegression lib 1000 (Some 42))\<rparr> in
      case clf_fit lib (LogisticRegression lib 1000 (Some 42)) X_train y_train g1 of
        (Inl e, g2) \<Rightarrow> (Inl e, self3, w\<lparr>np_random := g2\<rparr>)
      | (Inr clf, g2) \<Rightarrow>
     (let self4 = self3\<lparr>classifier := Some clf\<rparr>; w2 = w\<lparr>np_random := g2\<rparr> in
      case clf_predict lib clf X_test of
        Inl e \<Rightarrow> (Inl e, self4, w2)
      | Inr y_pred \<Rightarrow>
     (case accuracy_score lib y_test y_pred of
        Inl e \<Rightarrow> (Inl e, self4, w2)
      | Inr accuracy \<Rightarrow> (Inr accuracy, self4, save_model self4 w2))))))))"

text \<open>\<open>predict\<close> of the trainer, lines 101 to 113: no blank check and no handler.\<close>

definition predict ::
  "('v, 'l, 'c, 'z) serving_lib_scheme \<Rightarrow> ('v, 'l, 'c) SimpleIntentClassifier \<Rightarrow> pystr \<Rightarrow>
     py_error + (pystr \<times> real)" where
  "predict lib self text =
     (case vec_transform lib (vectorizer self) [str_lower lib text] of
        Inl e \<Rightarrow> Inl e
      | Inr X \<Rightarrow>
     (case classifier self of
        None \<Rightarrow> Inl AttributeError
      | Some clf \<Rightarrow>
     (case clf_predict lib clf X of
        Inl e \<Rightarrow> Inl e
      | Inr prediction \<Rightarrow>
     (case clf_predict_proba lib clf X of
        Inl e \<Rightarrow> Inl e
      | Inr proba \<Rightarrow>
     (case np_max proba of
        Inl e \<Rightarrow> Inl e
      | Inr probability \<Rightarrow>
     (case le_inverse_transform lib (label_encoder self) prediction of
        Inl e \<Rightarrow> Inl e
      | Inr decoded \<Rightarrow>
     (case item0 decoded of
        Inl e \<Rightarrow> Inl e
      | Inr intent \<Rightarrow> Inr (intent, probability))))))))"

section \<open>What the trainer relies on in the library\<close>

text \<open>
  scikit-learn documents that a call given an integer \<open>random_state\<close> is reproducible:
  its result does not depend on the state of the global generator. The predicate says
  so for the two calls of \<open>train\<close> that take a \<open>random_state\<close>.
\<close>

definition seeded :: "('v, 'l, 'c, 'g) training_lib \<Rightarrow> bool" where
  "seeded lib \<longleftrightarrow>
     (\<forall>X y t s g g'.
        fst (train_test_split lib X y t (Some s) g) =
        fst (train_test_split lib X y t (Some s) g')) \<and>
     (\<forall>n s X y g g'.
        fst (clf_fit lib (LogisticRegression lib n (Some s)) X y g) =
        fst (clf_fit lib (LogisticRegression lib n (Some s)) X y g'))"

section \<open>The specified components\<close>

text \<open>
  The source delegates the Label Codec, the Feature Encoder and the classifier to
  scikit-learn, whose code is not among the sources. This section gives each of them
  the behaviour the specification states, as a library the code above can run on.
\<close>

text \<open>
  Modelled from the spec: a codec or classifier call on a sequence (scikit-learn's
  array methods, not under src/) applies the operation to each element; the first
  failure ends the call.
\<close>

fun traverse :: "('a \<Rightarrow> py_error + 'b) \<Rightarrow> 'a list \<Rightarrow> py_error + 'b list" where
  "traverse f [] = Inr []"
| "traverse f (x # xs) =
     (case f x of
        Inl e \<Rightarrow> Inl e
      | Inr y \<Rightarrow> (case traverse f xs of Inl e \<Rightarrow> Inl e | Inr ys \<Rightarrow> Inr (y # ys)))"

text \<open>
  Modelled from the spec: the code of a tag (the look-up inside \<open>LabelEncoder\<close>, not
  under src/) is its first position among the classes.
\<close>

fun index_of :: "'a \<Rightarrow> 'a list \<Rightarrow> nat option" where
  "index_of a [] = None"
| "index_of a (x # xs) =
     (if a = x then Some 0 else (case index_of a xs of None \<Rightarrow> None | Some k \<Rightarrow> Some (Suc k)))"

text \<open>
  Modelled from the spec: the Label Codec of section 4.2 (in the source the class
  \<open>LabelEncoder\<close> of scikit-learn, which is not under src/). \<open>fit\<close> assigns each distinct
  tag an integer code, here its position among the distinct tags; \<open>encode\<close> fails with
  \<open>UnknownLabel\<close> on a tag not seen during fit; \<open>decode\<close> fails with \<open>UnknownCode\<close> on
  a code out of range.
\<close>

record label_codec =
  classes :: "pystr list"

text \<open>
  Modelled from the spec: \<open>fit\<close> of the Label Codec (\<open>LabelEncoder.fit\<close>, not under src/).
  The specification leaves the order of the codes open; the distinct tags are numbered in
  the order \<open>remdups\<close> lists them.
\<close>

definition codec_fit :: "pystr list \<Rightarrow> label_codec" where
  "codec_fit tags = \<lparr>classes = remdups tags\<rparr>"

text \<open>
  Modelled from the spec: \<open>encode\<close> of the Label Codec (\<open>LabelEncoder.transform\<close> on one
  tag, not under src/).
\<close>

definition codec_encode :: "label_codec \<Rightarrow> pystr \<Rightarrow> py_error + int" where
  "codec_encode c t =
     (case index_of t (classes c) of None \<Rightarrow> Inl UnknownLabel | Some k \<Rightarrow> Inr (int k))"

text \<open>
  Modelled from the spec: \<open>decode\<close> of the Label Codec (\<open>LabelEncoder.inverse_transform\<close>
  on one code, not under src/).
\<close>

definition codec_decode :: "label_codec \<Rightarrow> int \<Rightarrow> py_error + pystr" where
  "codec_decode c k =
     (if 0 \<le> k \<and> k < int (length (classes c)) then Inr (classes c ! nat k)
      else Inl UnknownCode)"

text \<open>
  Modelled from the spec: \<open>LabelEncoder.fit_transform\<close> (not under src/), the call of
  train.py, line 57: fit on the tag sequence, then encode each of its tags.
\<close>

definition codec_fit_transform :: "pystr list \<Rightarrow> py_error + (label_codec \<times> int list)" where
  "codec_fit_transform tags =
     (case traverse (codec_encode (codec_fit tags)) tags of
        Inl e \<Rightarrow> Inl e
      | Inr y \<Rightarrow> Inr (codec_fit tags, y))"

text \<open>
  Modelled from the spec: \<open>LabelEncoder.inverse_transform\<close> (not under src/), the call
  of app.py, line 60: decode each code of the sequence.
\<close>

definition codec_inverse_transform :: "label_codec \<Rightarrow> int list \<Rightarrow> py_error + pystr list" where
  "codec_inverse_transform c codes = traverse (codec_decode c) codes"

text \<open>
  Modelled from the spec: the Feature Encoder of sections 3 and 4.1 (in the source the
  class \<open>TfidfVectorizer\<close> of scikit-learn, which is not under src/). A fitted encoder
  holds a vocabulary, the index of a term being its position, and one inverse document
  frequency weight per term. The terms of a text are its unigrams and its bigrams; the
  specification does not fix how a text is cut into tokens, so the encoder carries its
  tokenizer. \<open>transform\<close> weighs the frequency of each vocabulary term in the text.
\<close>

record fitted_encoder =
  tokenizer :: "pystr \<Rightarrow> pystr list"
  vocabulary :: "pystr list"
  idf :: "real list"

text \<open>
  Modelled from the spec: the bigrams of a token sequence (inside \<open>TfidfVectorizer\<close>,
  not under src/), each two neighbouring tokens joined by a space.
\<close>

definition bigrams :: "pystr list \<Rightarrow> pystr list" where
  "bigrams ts = map (\<lambda>(a, b). a @ [32] @ b) (zip ts (tl ts))"

text \<open>
  Modelled from the spec: the terms of a text (inside \<open>TfidfVectorizer\<close>, not under
  src/), its unigrams followed by its bigrams.
\<close>

definition terms :: "fitted_encoder \<Rightarrow> pystr \<Rightarrow> pystr list" where
  "terms enc text = (let ts = tokenizer enc text in ts @ bigrams ts)"

text \<open>
  Modelled from the spec: \<open>transform\<close> of the Feature Encoder
  (\<open>TfidfVectorizer.transform\<close> on one text, not under src/): for each vocabulary term,
  its frequency in the text times its inverse document frequency weight.
\<close>

definition encoder_transform :: "fitted_encoder \<Rightarrow> pystr \<Rightarrow> real list" where
  "encoder_transform enc text =
     map (\<lambda>(term, w). real (count_list (terms enc text) term) * w)
       (zip (vocabulary enc) (idf enc))"

text \<open>
  Modelled from the spec: the classifier of sections 3, 4.3 and 4.4 (in the source the
  class \<open>LogisticRegression\<close> of scikit-learn, which is not under src/): multinomial
  logistic regression, with one row of weights and one bias per label code. The
  probabilities are the soft-max of the scores, the predicted code is the arg-max.
  A feature vector of the wrong length, or a model with no class, is a \<open>ValueError\<close>.
\<close>

record fitted_classifier =
  coef :: "real list list"
  intercept :: "real list"

text \<open>
  Modelled from the spec: the inner product of a row of weights and a feature vector
  (inside \<open>LogisticRegression\<close>, not under src/).
\<close>

definition dot :: "real list \<Rightarrow> real list \<Rightarrow> real" where
  "dot u x = sum_list (map (\<lambda>(a, b). a * b) (zip u x))"

text \<open>
  Modelled from the spec: the score of each class (\<open>decision_function\<close> of
  \<open>LogisticRegression\<close>, not under src/), its weights applied to the vector plus its
  bias.
\<close>

definition scores :: "fitted_classifier \<Rightarrow> real list \<Rightarrow> real list" where
  "scores clf x = map (\<lambda>(u, b). dot u x + b) (zip (coef clf) (intercept clf))"

text \<open>
  Modelled from the spec: the soft-max that turns scores into a probability
  distribution over the classes (inside \<open>LogisticRegression\<close>, not under src/).
\<close>

definition softmax :: "real list \<Rightarrow> real list" where
  "softmax ss = map (\<lambda>s. exp s / sum_list (map exp ss)) ss"

text \<open>
  Modelled from the spec: the arg-max (inside \<open>LogisticRegression\<close>, not under src/),
  the first position that holds the largest score.
\<close>

definition argmax :: "real list \<Rightarrow> nat" where
  "argmax ss = length (takeWhile (\<lambda>s. s < fold max (tl ss) (hd ss)) ss)"

text \<open>
  Modelled from the spec: the input check of the classifier (inside
  \<open>LogisticRegression\<close>, not under src/): at least one class, one bias per class, and
  rows as long as the feature vector.
\<close>

definition accepts :: "fitted_classifier \<Rightarrow> real list \<Rightarrow> bool" where
  "accepts clf x \<longleftrightarrow>
     coef clf \<noteq> [] \<and> length (coef clf) = length (intercept clf) \<and>
     list_all (\<lambda>u. length u = length x) (coef clf)"

text \<open>
  Modelled from the spec: the predicted label code (\<open>LogisticRegression.predict\<close> on one
  row, not under src/).
\<close>

definition classifier_predict :: "fitted_classifier \<Rightarrow> real list \<Rightarrow> py_error + int" where
  "classifier_predict clf x =
     (if accepts clf x then Inr (int (argmax (scores clf x))) else Inl ValueError)"

text \<open>
  Modelled from the spec: the probability distribution over the classes
  (\<open>LogisticRegression.predict_proba\<close> on one row, not under src/).
\<close>

definition classifier_predict_proba ::
  "fitted_classifier \<Rightarrow> real list \<Rightarrow> py_error + real list" where
  "classifier_predict_proba clf x =
     (if accepts clf x then Inr (softmax (scores clf x)) else Inl ValueError)"

text \<open>
  Modelled from the spec: the library of the serving code (scikit-learn, not under
  src/) made of the specified components. \<open>str.lower\<close> stays a parameter; the
  standard output is a UTF-8 stream.
\<close>

definition specified_lib ::
  "(pystr \<Rightarrow> pystr) \<Rightarrow> (fitted_encoder, label_codec, fitted_classifier) serving_lib" where
  "specified_lib lower =
     \<lparr>str_lower = lower,
      vec_transform = (\<lambda>enc texts. Inr (map (encoder_transform enc) texts)),
      clf_predict = (\<lambda>clf X. traverse (classifier_predict clf) X),
      clf_predict_proba = (\<lambda>clf X. traverse (classifier_predict_proba clf) X),
      le_inverse_transform = codec_inverse_transform,
      print_line = utf8_print\<rparr>"

text \<open>
  Modelled from the spec: the consistency of a ModelBundle (section 3; the objects are
  scikit-learn's, not under src/): the encoder has one weight per vocabulary term, the
  classifier has one row per class of the codec and at least one class, and every row
  has one weight per vocabulary term.
\<close>

definition consistent ::
  "(fitted_encoder, label_codec, fitted_classifier) SimpleDekutChatbot \<Rightarrow> bool" where
  "consistent self \<longleftrightarrow>
     length (idf (vectorizer self)) = length (vocabulary (vectorizer self)) \<and>
     (case classifier self of
        None \<Rightarrow> False
      | Some clf \<Rightarrow>
          coef clf \<noteq> [] \<and> length (coef clf) = length (intercept clf) \<and>
          length (coef clf) = length (classes (label_encoder self)) \<and>
          list_all (\<lambda>u. length u = length (vocabulary (vectorizer self))) (coef clf))"

section \<open>A small library and inputs for examples\<close>

text \<open>
  A concrete library to run the code on: the vectorizer turns a text into the one
  feature of its length, a classifier is a label code with a row of probabilities that
  it returns for every row of the matrix, a label encoder is the list of its classes.
  With an integer \<open>random_state\<close> the split holds out the last sample; without one the
  held-out sample is chosen by the global generator, a counter. The standard output is
  the UTF-8 stream of \<open>utf8_print\<close>.
\<close>

definition ascii_lower :: "pystr \<Rightarrow> pystr" where
  "ascii_lower s = map (\<lambda>c. if 65 \<le> c \<and> c \<le> 90 then c + 32 else c) s"

definition demo_inverse_transform :: "pystr list \<Rightarrow> int list \<Rightarrow> py_error + pystr list" where
  "demo_inverse_transform l codes =
     (if list_all (\<lambda>k. 0 \<le> k \<and> k < int (length l)) codes
      then Inr (map (\<lambda>k. l ! nat k) codes) else Inl ValueError)"

definition demo_split ::
  "real list list \<Rightarrow> int list \<Rightarrow> real \<Rightarrow> int option \<Rightarrow> nat \<Rightarrow>
     (py_error + (real list list \<times> real list list \<times> int list \<times> int list)) \<times> nat" where
  "demo_split X y t seed g =
     (if length X < 2 \<or> length y \<noteq> length X then (Inl ValueError, g)
      else
        (case seed of
           Some s \<Rightarrow> (Inr (butlast X, [last X], butlast y, [last y]), g)
         | None \<Rightarrow>
             (Inr (butlast (rotate g X), [last (rotate g X)],
                   butlast (rotate g y), [last (rotate g y)]), Suc g)))"

definition demo_accuracy :: "int list \<Rightarrow> int list \<Rightarrow> py_error + real" where
  "demo_accuracy y_true y_pred =
     (if length y_true \<noteq> length y_pred \<or> y_true = [] then Inl ValueError
      else Inr (real (length (filter (\<lambda>(a, b). a = b) (zip y_true y_pred))) /
                real (length y_true)))"

definition demo_lib :: "(unit, pystr list, int \<times> real list, nat) training_lib" where
  "demo_lib =
     \<lparr>str_lower = ascii_lower,
      vec_transform = (\<lambda>v texts. Inr (map (\<lambda>t. [real (length t)]) texts)),
      clf_predict = (\<lambda>c X. Inr (map (\<lambda>x. fst c) X)),
      clf_predict_proba = (\<lambda>c X. Inr (map (\<lambda>x. snd c) X)),
      le_inverse_transform = demo_inverse_transform,
      print_line = utf8_print,
      TfidfVectorizer = (\<lambda>n ng. ()),
      vec_fit_transform =
        (\<lambda>v ps. if ps = [] then Inl ValueError
                 else Inr ((), map (\<lambda>t. [real (length t)]) ps)),
      LabelEncoder = [],
      le_fit_transform =
        (\<lambda>l ts. Inr (remdups ts,
                      map (\<lambda>t. int (length (takeWhile (\<lambda>u. u \<noteq> t) (remdups ts)))) ts)),
      train_test_split = demo_split,
      LogisticRegression = (\<lambda>n s. (0, [])),
      clf_fit = (\<lambda>c X y g. if y = [] then (Inl ValueError, g) else (Inr (hd y, [1]), g)),
      accuracy_score = demo_accuracy\<rparr>"


text \<open>
  The corpus of the scenario of section 8 of the specification, with a third intent
  whose response is one of the messages of the fallback list.
\<close>

definition demo_intents :: "intent list" where
  "demo_intents =
     [\<lparr>tag = lit ''greeting'', patterns = [lit ''Hi'', lit ''hello''],
       responses = [lit ''Hello!'', lit ''Hi there!'']\<rparr>,
      \<lparr>tag = lit ''fees'', patterns = [lit ''how much are fees'', lit ''tuition cost''],
       responses = [lit ''Fees are posted on the finance page.'']\<rparr>,
      \<lparr>tag = lit ''unclear'', patterns = [lit ''what''],
       responses = [lit ''Could you rephrase your question?'']\<rparr>]"

text \<open>
  A chatbot over that corpus whose classifier answers label code \<open>c\<close> with the row of
  probabilities \<open>ps\<close>.
\<close>

definition demo_chatbot ::
  "int \<Rightarrow> real list \<Rightarrow> (unit, pystr list, int \<times> real list) SimpleDekutChatbot" where
  "demo_chatbot c ps =
     \<lparr>vectorizer = (),
      label_encoder = [lit ''fees'', lit ''greeting'', lit ''unclear''],
      classifier = Some (c, ps),
      tag_responses = create_response_mapping demo_intents Map.empty\<rparr>"

definition demo_classifier ::
  "int \<Rightarrow> real list \<Rightarrow> (unit, pystr list, int \<times> real list) SimpleIntentClassifier" where
  "demo_classifier c ps =
     \<lparr>vectorizer = (),
      label_encoder = [lit ''fees'', lit ''greeting'', lit ''unclear''],
      classifier = Some (c, ps),
      intents_file = ''intents.json''\<rparr>"

definition demo_world :: "nat \<Rightarrow> (unit, pystr list, int \<times> real list, nat) world" where
  "demo_world g =
     \<lparr>files = [''intents.json'' \<mapsto> Intents_Json demo_intents], dirs = {}, np_random = g\<rparr>"

text \<open>
  A bundle of the specified components: two vocabulary terms, two classes, and a
  tokenizer that takes the whole text as one token.
\<close>

definition demo_specified ::
  "(fitted_encoder, label_codec, fitted_classifier) SimpleDekutChatbot" where
  "demo_specified =
     \<lparr>vectorizer = \<lparr>tokenizer = (\<lambda>t. [t]), vocabulary = [lit ''hello'', lit ''fees''],
                    idf = [1, 2]\<rparr>,
      label_encoder = codec_fit [lit ''greeting'', lit ''fees'', lit ''greeting''],
      classifier = Some \<lparr>coef = [[1, 0], [0, 1]], intercept = [0, 0]\<rparr>,
      tag_responses = create_response_mapping demo_intents Map.empty\<rparr>"

section \<open>Strings and choices\<close>

lemma dropWhile_all_iff: "(\<forall>x\<in>set (dropWhile P s). P x) \<longleftrightarrow> (\<forall>x\<in>set s. P x)"
  by (induction s) auto

lemma strip_empty_iff: "strip s = [] \<longleftrightarrow> (\<forall>c\<in>set s. isspace c)"
  by (simp add: strip_def dropWhile_all_iff)

lemma strip_gibberish: "strip (lit ''xyzxyz unrelated gibberish'') \<noteq> []"
  by (simp add: strip_def lit_def isspace_def)

lemma strip_hello: "strip (lit ''hello'') \<noteq> []"
  by (simp add: strip_def lit_def isspace_def)

lemma strip_surrogate_hi: "strip (55296 # lit ''hi'') \<noteq> []"
  by (simp add: strip_def lit_def isspace_def)

lemma length_fallbacks: "length fallbacks = 4"
  by (simp add: fallbacks_def)

lemma random_choice_below:
  "k < length seq \<Longrightarrow> random_choice k seq = Inr (seq ! k)"
  by (auto simp add: random_choice_def)

section \<open>The response path\<close>

text \<open>
  The \<open>try\<close> block is its prediction steps followed by the two \<open>print\<close> calls and the
  threshold test on the intent and the confidence the steps yield.
\<close>

lemma get_response_try_prediction:
  "get_response_try lib self r q =
     (case get_response_prediction lib self q of
        Inl e \<Rightarrow> Inl e
      | Inr (intent, probability) \<Rightarrow>
     (case print_line lib (User_Line q) of
        Some e \<Rightarrow> Inl e
      | None \<Rightarrow>
     (case print_line lib (Intent_Line intent probability) of
        Some e \<Rightarrow> Inl e
      | None \<Rightarrow>
          (if probability > 0.5 \<and> intent \<in> dom (tag_responses self)
           then random_choice r (the (tag_responses self intent))
           else random_choice r fallbacks))))"
  by (auto simp add: get_response_try_def get_response_prediction_def
      split: sum.splits option.splits)

lemma predict_prediction:
  assumes "vectorizer trainer = vectorizer chatbot"
      and "label_encoder trainer = label_encoder chatbot"
      and "classifier trainer = classifier chatbot"
  shows "predict lib trainer q = get_response_prediction lib chatbot q"
  unfolding predict_def get_response_prediction_def assms by (rule refl)

lemma prediction_ignores_responses:
  "get_response_prediction lib (self\<lparr>tag_responses := T\<rparr>) q =
   get_response_prediction lib self q"
  by (simp add: get_response_prediction_def split: sum.splits option.splits)

lemma get_response_reject:
  assumes "strip q \<noteq> []"
      and "get_response_prediction lib self q = Inr (intent, p)"
      and "print_line lib (User_Line q) = None"
      and "print_line lib (Intent_Line intent p) = None"
      and "\<not> (p > 0.5 \<and> intent \<in> dom (tag_responses self))"
      and "r < length fallbacks"
  shows "get_response lib self r q = Inr (fallbacks ! r)"
  using assms
  by (auto simp add: get_response_def get_response_try_prediction random_choice_below)

lemma get_response_accept:
  assumes "strip q \<noteq> []"
      and "get_response_prediction lib self q = Inr (intent, p)"
      and "print_line lib (User_Line q) = None"
      and "print_line lib (Intent_Line intent p) = None"
      and "p > 0.5" and "tag_responses self intent = Some rs" and "r < length rs"
  shows "get_response lib self r q = Inr (rs ! r)"
proof -
  from assms(6) have "intent \<in> dom (tag_responses self)" by auto
  with assms show ?thesis
    by (simp add: get_response_def get_response_try_prediction random_choice_below)
qed

lemma get_response_print_fails:
  assumes "strip q \<noteq> []"
      and "get_response_prediction lib self q = Inr (intent, p)"
      and "print_line lib (User_Line q) = Some e"
  shows "get_response lib self r q =
     (case print_line lib (Error_Line e) of
        Some e' \<Rightarrow> Inl e'
      | None \<Rightarrow> Inr (lit ''I'm having trouble understanding. Please try again.''))"
  using assms by (simp add: get_response_def get_response_try_prediction)

lemma demo_tag_responses:
  "tag_responses (demo_chatbot c ps) =
     [lit ''greeting'' \<mapsto> [lit ''Hello!'', lit ''Hi there!''],
      lit ''fees'' \<mapsto> [lit ''Fees are posted on the finance page.''],
      lit ''unclear'' \<mapsto> [lit ''Could you rephrase your question?'']]"
  by (simp add: demo_chatbot_def demo_intents_def)

lemma demo_greeting_responses:
  "tag_responses (demo_chatbot c ps) (lit ''greeting'') = Some [lit ''Hello!'', lit ''Hi there!'']"
  by (simp add: demo_tag_responses) (simp add: lit_def)

lemma demo_prediction_half:
  "get_response_prediction demo_lib (demo_chatbot 1 [1/4, 1/2, 1/4]) q =
     Inr (lit ''greeting'', 1/2)"
  by (simp add: get_response_prediction_def demo_lib_def demo_chatbot_def np_max_def
      demo_inverse_transform_def item0_def)

lemma demo_prediction_high:
  "get_response_prediction demo_lib (demo_chatbot 1 [1/10, 4/5, 1/10]) q =
     Inr (lit ''greeting'', 4/5)"
  by (simp add: get_response_prediction_def demo_lib_def demo_chatbot_def np_max_def
      demo_inverse_transform_def item0_def)



lemma demo_print: "print_line demo_lib = utf8_print"
  by (simp add: demo_lib_def)


lemma print_greeting: "utf8_print (Intent_Line (lit ''greeting'') p) = None"
  by (simp add: utf8_print_def lit_def surrogate_def)

lemma print_hello: "utf8_print (User_Line (lit ''hello'')) = None"
  by (simp add: utf8_print_def lit_def surrogate_def)

lemma print_gibberish: "utf8_print (User_Line (lit ''xyzxyz unrelated gibberish'')) = None"
  by (simp add: utf8_print_def lit_def surrogate_def)

lemma print_surrogate_hi: "utf8_print (User_Line (55296 # lit ''hi'')) = Some UnicodeEncodeError"
  by (simp add: utf8_print_def lit_def surrogate_def)

lemma print_error: "utf8_print (Error_Line e) = None"
  by (simp add: utf8_print_def)

lemma fallbacks_1: "fallbacks ! 1 = lit ''Could you rephrase your question?''"
  by (simp add: fallbacks_def)

text \<open>
  Claim C1, as amended. Take a query that is not blank, whose prediction steps yield an
  intent and a top probability \<open>p\<close>, and whose two log lines are printed. If \<open>p\<close> is
  strictly greater than 0.5 and the intent has a registered response list, the answer is
  the entry of that list at the index \<open>random.choice\<close> draws, an index below the length
  of the list. If \<open>p\<close> is at most 0.5, the answer is the entry of the fallback list at the
  drawn index: a member of the fallback set, and the same whatever the response table
  holds, so it is never taken from an intent's response list.
\<close>

theorem confidence_gate:
  assumes "strip q \<noteq> []"
      and "get_response_prediction lib self q = Inr (intent, p)"
      and "print_line lib (User_Line q) = None"
      and "print_line lib (Intent_Line intent p) = None"
  shows "(p > 0.5 \<and> tag_responses self intent = Some rs \<and> r < length rs \<longrightarrow>
            get_response lib self r q = Inr (rs ! r) \<and> rs ! r \<in> set rs) \<and>
         (p \<le> 0.5 \<and> r < length fallbacks \<longrightarrow>
            get_response lib self r q = Inr (fallbacks ! r) \<and>
            fallbacks ! r \<in> set fallbacks \<and>
            (\<forall>T. get_response lib (self\<lparr>tag_responses := T\<rparr>) r q = Inr (fallbacks ! r)))"
proof (intro conjI impI allI)
  assume h: "p > 0.5 \<and> tag_responses self intent = Some rs \<and> r < length rs"
  with assms show "get_response lib self r q = Inr (rs ! r)"
    by (simp add: get_response_accept)
  from h show "rs ! r \<in> set rs" by simp
next
  assume h: "p \<le> 0.5 \<and> r < length fallbacks"
  with assms show "get_response lib self r q = Inr (fallbacks ! r)"
    by (simp add: get_response_reject)
  from h show "fallbacks ! r \<in> set fallbacks" by simp
  fix T
  from assms(2) have "get_response_prediction lib (self\<lparr>tag_responses := T\<rparr>) q = Inr (intent, p)"
    by (simp add: prediction_ignores_responses)
  with h assms(1,3,4) show "get_response lib (self\<lparr>tag_responses := T\<rparr>) r q = Inr (fallbacks ! r)"
    by (simp add: get_response_reject)
qed

text \<open>
  The gate at two inputs: a top probability of 4/5 for \<open>greeting\<close> with the index 1
  gives the second greeting; a top probability of exactly 1/2 with the index 2 gives the
  third fallback.
\<close>

theorem confidence_gate_witness:
  "get_response demo_lib (demo_chatbot 1 [1/10, 4/5, 1/10]) 1 (lit ''hello'') =
     Inr (lit ''Hi there!'') \<and>
   get_response demo_lib (demo_chatbot 1 [1/4, 1/2, 1/4]) 2 (lit ''hello'') =
     Inr (lit ''I'm still learning about that topic.'')"
proof -
  have u: "print_line demo_lib (User_Line (lit ''hello'')) = None"
    by (simp add: demo_print print_hello)
  have i: "\<And>p. print_line demo_lib (Intent_Line (lit ''greeting'') p) = None"
    by (simp add: demo_print print_greeting)
  show ?thesis
    using confidence_gate [OF strip_hello demo_prediction_high u i,
        of "[lit ''Hello!'', lit ''Hi there!'']" 1]
      confidence_gate [OF strip_hello demo_prediction_half u i, of "[]" 2]
      demo_greeting_responses [of 1 "[1/10, 4/5, 1/10]"]
    by (simp add: fallbacks_def)
qed

text \<open>
  Claim C1 as stated fails twice. A query that holds a lone surrogate, as a JSON request
  can deliver, passes the prediction steps with a top probability of 4/5 for an intent
  with two responses, but the first \<open>print\<close> of the \<open>try\<close> block raises and the answer
  is the apology. And where an intent registers one of the fallback messages as a
  response, a top probability of 1/2 with the index 1 gives the second fallback message,
  which is a member of the response list of the intent \<open>unclear\<close>.
\<close>

theorem gate_fails_on_surrogate_and_shared_message:
  "strip (55296 # lit ''hi'') \<noteq> [] \<and>
   get_response_prediction demo_lib (demo_chatbot 1 [1/10, 4/5, 1/10]) (55296 # lit ''hi'') =
     Inr (lit ''greeting'', 4/5) \<and>
   tag_responses (demo_chatbot 1 [1/10, 4/5, 1/10]) (lit ''greeting'') =
     Some [lit ''Hello!'', lit ''Hi there!''] \<and>
   get_response demo_lib (demo_chatbot 1 [1/10, 4/5, 1/10]) 0 (55296 # lit ''hi'') =
     Inr (lit ''I'm having trouble understanding. Please try again.'') \<and>
   strip (lit ''xyzxyz unrelated gibberish'') \<noteq> [] \<and>
   get_response_prediction demo_lib (demo_chatbot 1 [1/4, 1/2, 1/4])
     (lit ''xyzxyz unrelated gibberish'') = Inr (lit ''greeting'', 1/2) \<and>
   get_response demo_lib (demo_chatbot 1 [1/4, 1/2, 1/4]) 1
     (lit ''xyzxyz unrelated gibberish'') =
     Inr (lit ''Could you rephrase your question?'') \<and>
   tag_responses (demo_chatbot 1 [1/4, 1/2, 1/4]) (lit ''unclear'') =
     Some [lit ''Could you rephrase your question?'']"
proof -
  have a: "get_response demo_lib (demo_chatbot 1 [1/10, 4/5, 1/10]) 0 (55296 # lit ''hi'') =
     Inr (lit ''I'm having trouble understanding. Please try again.'')"
    using get_response_print_fails [OF strip_surrogate_hi demo_prediction_high,
        of UnicodeEncodeError 0]
    by (simp add: demo_print print_surrogate_hi print_error)
  have b: "get_response demo_lib (demo_chatbot 1 [1/4, 1/2, 1/4]) 1
      (lit ''xyzxyz unrelated gibberish'') = Inr (fallbacks ! 1)"
    by (rule get_response_reject [OF strip_gibberish demo_prediction_half])
       (simp_all add: demo_print print_gibberish print_greeting length_fallbacks)
  have c: "tag_responses (demo_chatbot 1 [1/4, 1/2, 1/4]) (lit ''unclear'') =
     Some [lit ''Could you rephrase your question?'']"
    by (simp add: demo_tag_responses)
  show ?thesis
    using a b c strip_surrogate_hi strip_gibberish demo_prediction_high demo_prediction_half
      demo_greeting_responses fallbacks_1
    by simp
qed





text \<open>
  Claim C3. For a query that is empty or holds white space only, \<open>get_response\<close>
  returns its fixed prompt and the \<open>/chat\<close> handler returns its own, as a normal result;
  so does the handler for a request without a message.
  The statement holds for every library, every chatbot and every draw, also for a
  library whose every call raises: nothing is encoded, classified or selected.
\<close>

theorem blank_input_prompt:
  assumes "\<forall>c\<in>set user_input. isspace c"
  shows "get_response lib self r user_input = Inr (lit ''Please type a question.'') \<and>
         chat lib self r (Some user_input) =
           Inr \<lparr>response = lit ''Please enter a message.'', success = None\<rparr> \<and>
         chat lib self r None =
           Inr \<lparr>response = lit ''Please enter a message.'', success = None\<rparr>"
  using assms by (simp add: get_response_def chat_def strip_empty_iff)

text \<open>A space, a tab, a line feed, a no-break space and an em space.\<close>

theorem blank_input_prompt_witness:
  "list_all isspace (lit '' '' @ [9, 10, 160, 8195]) \<and>
   get_response demo_lib (demo_chatbot 7 [1]) 0 (lit '' '' @ [9, 10, 160, 8195]) =
     Inr (lit ''Please type a question.'') \<and>
   chat demo_lib (demo_chatbot 7 [1]) 0 (Some (lit '' '' @ [9, 10, 160, 8195])) =
     Inr \<lparr>response = lit ''Please enter a message.'', success = None\<rparr>"
proof -
  have h: "\<forall>c\<in>set (lit '' '' @ [9, 10, 160, 8195]). isspace c"
    by (simp add: lit_def isspace_def)
  have "list_all isspace (lit '' '' @ [9, 10, 160, 8195])"
    by (simp add: lit_def isspace_def)
  then show ?thesis using blank_input_prompt [OF h] by blast
qed

text \<open>
  Claim C9. When the trainer object and the chatbot hold the same vectorizer, label
  encoder and classifier, \<open>predict\<close> of the trainer and the prediction steps of
  \<open>get_response\<close> return the same intent and confidence, or raise the same exception,
  for every query; and the \<open>try\<close> block of \<open>get_response\<close> is its two \<open>print\<close> calls
  and the threshold test applied to the result of \<open>predict\<close>.
\<close>

theorem predict_equivalence:
  assumes "vectorizer trainer = vectorizer chatbot"
      and "label_encoder trainer = label_encoder chatbot"
      and "classifier trainer = classifier chatbot"
  shows "predict lib trainer q = get_response_prediction lib chatbot q \<and>
         get_response_try lib chatbot r q =
           (case predict lib trainer q of
              Inl e \<Rightarrow> Inl e
            | Inr (intent, probability) \<Rightarrow>
           (case print_line lib (User_Line q) of
              Some e \<Rightarrow> Inl e
            | None \<Rightarrow>
           (case print_line lib (Intent_Line intent probability) of
              Some e \<Rightarrow> Inl e
            | None \<Rightarrow>
                (if probability > 0.5 \<and> intent \<in> dom (tag_responses chatbot)
                 then random_choice r (the (tag_responses chatbot intent))
                 else random_choice r fallbacks))))"
  by (simp add: predict_prediction [OF assms] get_response_try_prediction)

theorem predict_equivalence_witness:
  "predict demo_lib (demo_classifier 1 [1/10, 4/5, 1/10]) (lit ''Hello'') =
     Inr (lit ''greeting'', 4/5) \<and>
   get_response_prediction demo_lib (demo_chatbot 1 [1/10, 4/5, 1/10]) (lit ''Hello'') =
     Inr (lit ''greeting'', 4/5)"
proof -
  have "predict demo_lib (demo_classifier 1 [1/10, 4/5, 1/10]) (lit ''Hello'') =
     Inr (lit ''greeting'', 4/5)"
    by (simp add: predict_def demo_lib_def demo_classifier_def np_max_def
      demo_inverse_transform_def item0_def)
  then show ?thesis
    using predict_equivalence [of "demo_classifier 1 [1/10, 4/5, 1/10]"
        "demo_chatbot 1 [1/10, 4/5, 1/10]" demo_lib "lit ''Hello''" 0]
    by (simp add: demo_classifier_def demo_chatbot_def)
qed

section \<open>The trainer\<close>

lemma prepare_patterns_eq:
  "prepare_patterns lower t ps (a, b) = (a @ map lower ps, b @ replicate (length ps) t)"
  by (induction ps arbitrary: a b) (simp_all add: replicate_app_Cons_same)

lemma prepare_intents_eq:
  "prepare_intents lower data (a, b) =
     (a @ concat (map (\<lambda>i. map lower (patterns i)) data),
      b @ concat (map (\<lambda>i. replicate (length (patterns i)) (tag i)) data))"
  by (induction data arbitrary: a b) (simp_all add: prepare_patterns_eq)

lemma zip_map_replicate:
  "zip (map f ps) (replicate (length ps) t) = map (\<lambda>p. (f p, t)) ps"
  by (induction ps) simp_all

lemma zip_concat_patterns:
  "zip (concat (map (\<lambda>i. map lower (patterns i)) data))
       (concat (map (\<lambda>i. replicate (length (patterns i)) (tag i)) data)) =
   concat (map (\<lambda>i. map (\<lambda>p. (lower p, tag i)) (patterns i)) data)"
  by (induction data) (simp_all add: zip_map_replicate)

lemma length_concat_patterns:
  "length (concat (map (\<lambda>i. map lower (patterns i)) data)) =
   length (concat (map (\<lambda>i. replicate (length (patterns i)) (tag i)) data))"
  by (induction data) simp_all

text \<open>
  Claim C10. For every corpus that \<open>load_intents\<close> loads, \<open>prepare_data\<close> returns two
  lists of equal length; the patterns are the lower-cased patterns of the corpus in
  corpus order, and pairing the two lists position by position gives, for each intent in
  order and each of its patterns in order, the lower-cased pattern with the unchanged tag
  of that intent.
\<close>

theorem prepare_data_pairing:
  assumes "load_intents self w = Inr data"
  shows "\<exists>ps ts. prepare_data lib self w = Inr (ps, ts) \<and>
           length ps = length ts \<and>
           ps = concat (map (\<lambda>i. map (str_lower lib) (patterns i)) data) \<and>
           zip ps ts = concat (map (\<lambda>i. map (\<lambda>p. (str_lower lib p, tag i)) (patterns i)) data)"
  using assms
  by (simp add: prepare_data_def prepare_intents_eq zip_concat_patterns
      length_concat_patterns)

lemma demo_init:
  "SimpleIntentClassifier_init demo_lib ''intents.json'' =
     \<lparr>vectorizer = (), label_encoder = [], classifier = None, intents_file = ''intents.json''\<rparr>"
  by (simp add: SimpleIntentClassifier_init_def demo_lib_def)

lemma demo_load:
  "load_intents (SimpleIntentClassifier_init demo_lib ''intents.json'') (demo_world g) =
     Inr demo_intents"
  by (simp add: load_intents_def demo_init demo_world_def)

lemma demo_lower: "str_lower demo_lib = ascii_lower"
  by (simp add: demo_lib_def)

lemma demo_prepare:
  "prepare_data demo_lib (SimpleIntentClassifier_init demo_lib ''intents.json'') (demo_world g) =
     Inr ([lit ''hi'', lit ''hello'', lit ''how much are fees'', lit ''tuition cost'', lit ''what''],
          [lit ''greeting'', lit ''greeting'', lit ''fees'', lit ''fees'', lit ''unclear''])"
  by (simp add: prepare_data_def demo_load demo_lower demo_intents_def)
     (simp add: lit_def ascii_lower_def)

text \<open>The corpus of the examples: five patterns, \<open>Hi\<close> lower-cased, each with its tag.\<close>

theorem prepare_data_pairing_witness:
  "prepare_data demo_lib (SimpleIntentClassifier_init demo_lib ''intents.json'') (demo_world 0) =
     Inr ([lit ''hi'', lit ''hello'', lit ''how much are fees'', lit ''tuition cost'', lit ''what''],
          [lit ''greeting'', lit ''greeting'', lit ''fees'', lit ''fees'', lit ''unclear''])"
  using prepare_data_pairing [OF demo_load, where lib = demo_lib and g1 = 0] demo_prepare by simp







lemma fst_train:
  "fst (train lib self w) =
     (case prepare_data lib self w of
        Inl e \<Rightarrow> Inl e
      | Inr (ps, ts) \<Rightarrow>
     (case vec_fit_transform lib (vectorizer self) ps of
        Inl e \<Rightarrow> Inl e
      | Inr (v, X) \<Rightarrow>
     (case le_fit_transform lib (label_encoder self) ts of
        Inl e \<Rightarrow> Inl e
      | Inr (l, y) \<Rightarrow>
     (case fst (train_test_split lib X y 0.2 (Some 42) (np_random w)) of
        Inl e \<Rightarrow> Inl e
      | Inr (X_train, X_test, y_train, y_test) \<Rightarrow>
     (case fst (clf_fit lib (LogisticRegression lib 1000 (Some 42)) X_train y_train
                 (snd (train_test_split lib X y 0.2 (Some 42) (np_random w)))) of
        Inl e \<Rightarrow> Inl e
      | Inr clf \<Rightarrow>
     (case clf_predict lib clf X_test of
        Inl e \<Rightarrow> Inl e
      | Inr y_pred \<Rightarrow> accuracy_score lib y_test y_pred))))))"
  by (simp add: train_def Let_def split: sum.splits prod.splits)

lemma prepare_data_files:
  assumes "files w (intents_file self) = files w' (intents_file self)"
  shows "prepare_data lib self w = prepare_data lib self w'"
  using assms by (simp add: prepare_data_def load_intents_def)

lemma seeded_split:
  "seeded lib \<Longrightarrow>
     fst (train_test_split lib X y t (Some s) g) = fst (train_test_split lib X y t (Some s) g')"
  unfolding seeded_def by blast

lemma seeded_fit:
  "seeded lib \<Longrightarrow>
     fst (clf_fit lib (LogisticRegression lib n (Some s)) X y g) =
     fst (clf_fit lib (LogisticRegression lib n (Some s)) X y g')"
  unfolding seeded_def by blast

lemma train_reproducible:
  assumes "seeded lib" and "files w (intents_file self) = files w' (intents_file self)"
  shows "fst (train lib self w) = fst (train lib self w')"
proof -
  have split_eq: "\<And>X y. fst (train_test_split lib X y 0.2 (Some 42) (np_random w)) =
      fst (train_test_split lib X y 0.2 (Some 42) (np_random w'))"
    by (rule seeded_split [OF assms(1)])
  have fit_eq: "\<And>X y X_train y_train.
      fst (clf_fit lib (LogisticRegression lib 1000 (Some 42)) X_train y_train
            (snd (train_test_split lib X y 0.2 (Some 42) (np_random w)))) =
      fst (clf_fit lib (LogisticRegression lib 1000 (Some 42)) X_train y_train
            (snd (train_test_split lib X y 0.2 (Some 42) (np_random w'))))"
    by (rule seeded_fit [OF assms(1)])
  show ?thesis
    unfolding fst_train prepare_data_files [OF assms(2)] split_eq fit_eq by (rule refl)
qed

lemma train_split_arguments:
  assumes "\<And>X y g. f X y 0.2 (Some 42) g = train_test_split lib X y 0.2 (Some 42) g"
  shows "train (lib\<lparr>train_test_split := f\<rparr>) self w = train lib self w"
proof -
  have "\<And>X y g. f X y (1 / 5) (Some 42) g = train_test_split lib X y (1 / 5) (Some 42) g"
    using assms by simp
  then show ?thesis
    by (simp add: train_def prepare_data_def Let_def split: sum.splits prod.splits)
qed

lemma train_held_out:
  assumes "prepare_data lib self w = Inr (ps, ts)"
      and "vec_fit_transform lib (vectorizer self) ps = Inr (v, X)"
      and "le_fit_transform lib (label_encoder self) ts = Inr (l, y)"
      and "train_test_split lib X y 0.2 (Some 42) (np_random w) =
             (Inr (X_train, X_test, y_train, y_test), g1)"
      and "clf_fit lib (LogisticRegression lib 1000 (Some 42)) X_train y_train g1 =
             (Inr clf, g2)"
      and "clf_predict lib clf X_test = Inr y_pred"
  shows "fst (train lib self w) = accuracy_score lib y_test y_pred"
  using assms by (simp add: fst_train)

lemma seeded_demo: "seeded demo_lib"
  by (simp add: seeded_def demo_lib_def demo_split_def)

text \<open>
  Claim C5. The trainer splits the encoded samples once, with \<open>test_size\<close> 0.2 and
  \<open>random_state\<close> 42, fits a classifier built with \<open>random_state\<close> 42 on the training
  part, and returns the accuracy of its predictions on the held-out part. It asks for no
  other split. With a library that honours an integer \<open>random_state\<close>, two runs of
  \<open>train\<close> on the same intents file return the same accuracy (or raise the same
  exception), whatever the state of the global random generator and the other files at
  the start of each run.
\<close>

theorem seeded_training_reproducible:
  "(prepare_data lib self w = Inr (ps, ts) \<and>
    vec_fit_transform lib (vectorizer self) ps = Inr (v, X) \<and>
    le_fit_transform lib (label_encoder self) ts = Inr (l, y) \<and>
    train_test_split lib X y 0.2 (Some 42) (np_random w) =
      (Inr (X_train, X_test, y_train, y_test), g1) \<and>
    clf_fit lib (LogisticRegression lib 1000 (Some 42)) X_train y_train g1 = (Inr clf, g2) \<and>
    clf_predict lib clf X_test = Inr y_pred \<longrightarrow>
      fst (train lib self w) = accuracy_score lib y_test y_pred) \<and>
   (\<forall>f. (\<forall>X y g. f X y 0.2 (Some 42) g = train_test_split lib X y 0.2 (Some 42) g) \<longrightarrow>
        train (lib\<lparr>train_test_split := f\<rparr>) self w = train lib self w) \<and>
   (seeded lib \<and> files w (intents_file self) = files w' (intents_file self) \<longrightarrow>
      fst (train lib self w) = fst (train lib self w'))"
  using train_held_out [of lib self w ps ts v X l y X_train X_test y_train y_test g1 clf g2 y_pred]
    train_split_arguments [of _ lib self w] train_reproducible [of lib w self w']
  by blast

text \<open>
  Two runs on the corpus of the examples that start from different states of the global
  generator: in both the last of the five samples is held out, the classifier fitted on
  the other four answers label 0 for it, its label is 2, and the accuracy is 0.
\<close>

theorem seeded_training_reproducible_witness:
  "train_test_split demo_lib [[2], [5], [17], [12], [4]] [0, 0, 1, 1, 2] 0.2 (Some 42) 3 =
     (Inr ([[2], [5], [17], [12]], [[4]], [0, 0, 1, 1], [2]), 3) \<and>
   clf_predict demo_lib (0, [1]) [[4]] = Inr [0] \<and>
   accuracy_score demo_lib [2] [0] = Inr 0 \<and>
   fst (train demo_lib (SimpleIntentClassifier_init demo_lib ''intents.json'') (demo_world 3)) =
     Inr 0 \<and>
   np_random (demo_world 3) \<noteq> np_random (demo_world 8) \<and>
   fst (train demo_lib (SimpleIntentClassifier_init demo_lib ''intents.json'') (demo_world 3)) =
   fst (train demo_lib (SimpleIntentClassifier_init demo_lib ''intents.json'') (demo_world 8))"
proof -
  let ?self = "SimpleIntentClassifier_init demo_lib ''intents.json''"
  have f: "files (demo_world 3) (intents_file ?self) = files (demo_world 8) (intents_file ?self)"
    by (simp add: demo_world_def)
  have v: "vec_fit_transform demo_lib (vectorizer ?self)
      [lit ''hi'', lit ''hello'', lit ''how much are fees'', lit ''tuition cost'', lit ''what''] =
      Inr ((), [[2], [5], [17], [12], [4]])"
    by (simp add: demo_lib_def lit_def)
  have l: "le_fit_transform demo_lib (label_encoder ?self)
      [lit ''greeting'', lit ''greeting'', lit ''fees'', lit ''fees'', lit ''unclear''] =
      Inr ([lit ''greeting'', lit ''fees'', lit ''unclear''], [0, 0, 1, 1, 2])"
    by (simp add: demo_lib_def lit_def)
  have s: "train_test_split demo_lib [[2], [5], [17], [12], [4]] [0, 0, 1, 1, 2] 0.2 (Some 42)
      (np_random (demo_world 3)) =
      (Inr ([[2], [5], [17], [12]], [[4]], [0, 0, 1, 1], [2]), 3)"
    by (simp add: demo_lib_def demo_split_def demo_world_def)
  have c: "clf_fit demo_lib (LogisticRegression demo_lib 1000 (Some 42))
      [[2], [5], [17], [12]] [0, 0, 1, 1] 3 = (Inr (0, [1]), 3)"
    by (simp add: demo_lib_def)
  have p: "clf_predict demo_lib (0, [1]) [[4]] = Inr [0]"
    by (simp add: demo_lib_def)
  have a: "accuracy_score demo_lib [2] [0] = Inr 0"
    by (simp add: demo_lib_def demo_accuracy_def)
  have n: "np_random (demo_world 3) \<noteq> np_random (demo_world 8)"
    by (simp add: demo_world_def)
  from s have s': "train_test_split demo_lib [[2], [5], [17], [12], [4]] [0, 0, 1, 1, 2] 0.2
      (Some 42) 3 = (Inr ([[2], [5], [17], [12]], [[4]], [0, 0, 1, 1], [2]), 3)"
    by (simp add: demo_world_def)
  note T = seeded_training_reproducible
    [where lib = demo_lib and self = "?self" and w = "demo_world 3" and w' = "demo_world 8"
       and ps = "[lit ''hi'', lit ''hello'', lit ''how much are fees'', lit ''tuition cost'',
                  lit ''what'']"
       and ts = "[lit ''greeting'', lit ''greeting'', lit ''fees'', lit ''fees'',
                  lit ''unclear'']"
       and v = "()" and X = "[[2], [5], [17], [12], [4]]"
       and l = "[lit ''greeting'', lit ''fees'', lit ''unclear'']" and y = "[0, 0, 1, 1, 2]"
       and X_train = "[[2], [5], [17], [12]]" and X_test = "[[4]]"
       and y_train = "[0, 0, 1, 1]" and y_test = "[2]" and ?g1.0 = 3
       and clf = "(0, [1])" and ?g2.0 = 3 and y_pred = "[0]"]
  from T demo_prepare [of 3] v l s c p
  have h: "fst (train demo_lib ?self (demo_world 3)) = accuracy_score demo_lib [2] [0]"
    by blast
  from T seeded_demo f
  have r: "fst (train demo_lib ?self (demo_world 3)) = fst (train demo_lib ?self (demo_world 8))"
    by blast
  from h a have "fst (train demo_lib ?self (demo_world 3)) = Inr 0" by simp
  with s' p a n r show ?thesis by blast
qed

section \<open>The specified components under the serving code\<close>

lemma index_of_Some: "index_of a xs = Some k \<Longrightarrow> k < length xs \<and> xs ! k = a"
  by (induction xs arbitrary: k) (auto split: if_splits option.splits)

lemma index_of_member: "a \<in> set xs \<Longrightarrow> \<exists>k. index_of a xs = Some k"
  by (induction xs) auto

lemma codec_round_trip:
  assumes "t \<in> set (classes c)"
  shows "\<exists>k. codec_encode c t = Inr k \<and> codec_decode c k = Inr t"
proof -
  from index_of_member [OF assms] obtain k where k: "index_of t (classes c) = Some k" ..
  from index_of_Some [OF k] have "k < length (classes c)" and "classes c ! k = t" by simp_all
  with k show ?thesis by (simp add: codec_encode_def codec_decode_def)
qed

lemma codec_round_trip_all:
  assumes "set ts \<subseteq> set (classes c)"
  shows "\<exists>y. traverse (codec_encode c) ts = Inr y \<and> traverse (codec_decode c) y = Inr ts"
  using assms
proof (induction ts)
  case Nil
  then show ?case by simp
next
  case (Cons t ts)
  then have "t \<in> set (classes c)" and "set ts \<subseteq> set (classes c)" by simp_all
  from codec_round_trip [OF this(1)] obtain k
    where "codec_encode c t = Inr k" and "codec_decode c k = Inr t" by blast
  moreover from Cons.IH [OF \<open>set ts \<subseteq> set (classes c)\<close>] obtain y
    where "traverse (codec_encode c) ts = Inr y" and "traverse (codec_decode c) y = Inr ts"
    by blast
  ultimately show ?case by simp
qed

lemma classes_codec_fit: "set (classes (codec_fit tags)) = set tags"
  by (simp add: codec_fit_def)

text \<open>
  Claim C4. For every tag of the sequence a Label Codec was fitted on, encoding the tag
  succeeds and decoding the code gives the tag back; and \<open>inverse_transform\<close> of the
  codes \<open>fit_transform\<close> returns for the sequence is the sequence itself.
\<close>

theorem label_codec_round_trip:
  assumes "t \<in> set tags"
  shows "(\<exists>k. codec_encode (codec_fit tags) t = Inr k \<and>
              codec_decode (codec_fit tags) k = Inr t) \<and>
         (\<exists>y. codec_fit_transform tags = Inr (codec_fit tags, y) \<and>
              codec_inverse_transform (codec_fit tags) y = Inr tags)"
proof
  from assms have "t \<in> set (classes (codec_fit tags))" by (simp add: classes_codec_fit)
  then show "\<exists>k. codec_encode (codec_fit tags) t = Inr k \<and>
      codec_decode (codec_fit tags) k = Inr t"
    by (rule codec_round_trip)
next
  have "set tags \<subseteq> set (classes (codec_fit tags))" by (simp add: classes_codec_fit)
  from codec_round_trip_all [OF this] obtain y
    where "traverse (codec_encode (codec_fit tags)) tags = Inr y"
      and "traverse (codec_decode (codec_fit tags)) y = Inr tags" by blast
  then show "\<exists>y. codec_fit_transform tags = Inr (codec_fit tags, y) \<and>
      codec_inverse_transform (codec_fit tags) y = Inr tags"
    by (simp add: codec_fit_transform_def codec_inverse_transform_def)
qed

lemma demo_codec: "codec_fit [lit ''greeting'', lit ''fees'', lit ''greeting''] =
   \<lparr>classes = [lit ''fees'', lit ''greeting'']\<rparr>"
  by (simp add: codec_fit_def lit_def)

theorem label_codec_round_trip_witness:
  "codec_encode (codec_fit [lit ''greeting'', lit ''fees'', lit ''greeting'']) (lit ''greeting'') =
     Inr 1 \<and>
   codec_decode (codec_fit [lit ''greeting'', lit ''fees'', lit ''greeting'']) 1 =
     Inr (lit ''greeting'') \<and>
   codec_fit_transform [lit ''greeting'', lit ''fees'', lit ''greeting''] =
     Inr (codec_fit [lit ''greeting'', lit ''fees'', lit ''greeting''], [1, 0, 1])"
proof -
  have "lit ''greeting'' \<in> set [lit ''greeting'', lit ''fees'', lit ''greeting'']" by simp
  from label_codec_round_trip [OF this] show ?thesis
    by (simp add: demo_codec codec_fit_transform_def codec_encode_def codec_decode_def)
       (simp add: lit_def)
qed

lemma count_list_0: "a \<notin> set xs \<Longrightarrow> count_list xs a = 0"
  by (induction xs) auto

lemma map_zero_weights:
  assumes "\<And>a. a \<in> set vs \<Longrightarrow> count_list ts a = 0" and "length ws = length vs"
  shows "map (\<lambda>(term, w). real (count_list ts term) * w) (zip vs ws) =
         replicate (length vs) (0::real)"
  using assms
proof (induction vs arbitrary: ws)
  case Nil
  then show ?case by simp
next
  case (Cons v vs)
  then obtain w ws' where ws: "ws = w # ws'" by (cases ws) auto
  with Cons show ?case by simp
qed

lemma encoder_transform_oov:
  assumes "set (terms enc text) \<inter> set (vocabulary enc) = {}"
      and "length (idf enc) = length (vocabulary enc)"
  shows "encoder_transform enc text = replicate (length (vocabulary enc)) 0"
proof -
  have "\<And>a. a \<in> set (vocabulary enc) \<Longrightarrow> count_list (terms enc text) a = 0"
    using assms(1) by (auto intro: count_list_0)
  from map_zero_weights [OF this assms(2)] show ?thesis
    by (simp add: encoder_transform_def)
qed

lemma dot_zero: "dot u (replicate n 0) = 0"
proof -
  have "sum_list (map (\<lambda>(a, b). a * b) (zip u (replicate n (0::real)))) = 0"
  proof (induction u arbitrary: n)
    case Nil
    then show ?case by simp
  next
    case (Cons a u)
    then show ?case by (cases n) simp_all
  qed
  then show ?thesis by (simp add: dot_def)
qed

lemma scores_zero:
  assumes "length (coef clf) = length (intercept clf)"
  shows "scores clf (replicate n 0) = intercept clf"
proof -
  have "map (\<lambda>(u, b). dot u (replicate n 0) + b) (zip (coef clf) (intercept clf)) =
        map snd (zip (coef clf) (intercept clf))"
    by (rule map_cong) (auto simp add: dot_zero)
  with assms show ?thesis by (simp add: scores_def)
qed

lemma fold_max_member: "fold max xs (x::real) \<in> set (x # xs)"
  by (induction xs arbitrary: x) (auto simp add: max_def)

lemma takeWhile_stops:
  assumes "x \<in> set xs" and "\<not> P x"
  shows "length (takeWhile P xs) < length xs"
  using assms by (induction xs) auto

lemma argmax_less:
  assumes "ss \<noteq> []"
  shows "argmax ss < length ss"
proof -
  from assms obtain x xs where ss: "ss = x # xs" by (cases ss) auto
  have "fold max xs x \<in> set (x # xs)" by (rule fold_max_member)
  with ss have "fold max (tl ss) (hd ss) \<in> set ss" by simp
  then show ?thesis unfolding argmax_def by (rule takeWhile_stops) simp
qed

lemma np_max_row: "row \<noteq> [] \<Longrightarrow> np_max [row] = Inr (fold max (tl row) (hd row))"
  by (cases row) (simp_all add: np_max_def)

lemma softmax_length: "length (softmax ss) = length ss"
  by (simp add: softmax_def)

text \<open>
  Claim C8. Take a consistent bundle of the specified components and a query none of
  whose terms, once lower-cased, is in the vocabulary. The encoder returns the all-zero
  vector, as a normal result. The prediction steps of \<open>get_response\<close> on it succeed:
  the scores are the biases, the intent is the class of the largest bias and the
  confidence is its soft-max probability.
\<close>

theorem zero_vector_prediction:
  assumes "consistent self" and "classifier self = Some clf"
      and "set (terms (vectorizer self) (lower q)) \<inter> set (vocabulary (vectorizer self)) = {}"
  shows "vec_transform (specified_lib lower) (vectorizer self) [lower q] =
           Inr [replicate (length (vocabulary (vectorizer self))) 0] \<and>
         get_response_prediction (specified_lib lower) self q =
           Inr (classes (label_encoder self) ! argmax (intercept clf),
                fold max (tl (softmax (intercept clf))) (hd (softmax (intercept clf))))"
proof -
  let ?z = "replicate (length (vocabulary (vectorizer self))) (0::real)"
  from assms(1,2) have idf: "length (idf (vectorizer self)) = length (vocabulary (vectorizer self))"
    and ne: "coef clf \<noteq> []"
    and len: "length (coef clf) = length (intercept clf)"
    and cls: "length (coef clf) = length (classes (label_encoder self))"
    and rows: "list_all (\<lambda>u. length u = length (vocabulary (vectorizer self))) (coef clf)"
    by (simp_all add: consistent_def)
  have x: "encoder_transform (vectorizer self) (lower q) = ?z"
    by (rule encoder_transform_oov [OF assms(3) idf])
  have acc: "accepts clf ?z"
    using ne len rows by (simp add: accepts_def)
  have sc: "scores clf ?z = intercept clf"
    by (rule scores_zero [OF len])
  from ne len have ine: "intercept clf \<noteq> []" by auto
  then have sne: "softmax (intercept clf) \<noteq> []"
    using softmax_length [of "intercept clf"] by auto
  from argmax_less [OF ine] len cls
  have dec: "codec_decode (label_encoder self) (int (argmax (intercept clf))) =
      Inr (classes (label_encoder self) ! argmax (intercept clf))"
    by (simp add: codec_decode_def)
  have t: "vec_transform (specified_lib lower) (vectorizer self) [lower q] = Inr [?z]"
    by (simp add: specified_lib_def x)
  have p: "clf_predict (specified_lib lower) clf [?z] = Inr [int (argmax (intercept clf))]"
    using acc by (simp add: specified_lib_def classifier_predict_def sc)
  have pp: "clf_predict_proba (specified_lib lower) clf [?z] = Inr [softmax (intercept clf)]"
    using acc by (simp add: specified_lib_def classifier_predict_proba_def sc)
  have it: "le_inverse_transform (specified_lib lower) (label_encoder self)
      [int (argmax (intercept clf))] = Inr [classes (label_encoder self) ! argmax (intercept clf)]"
    by (simp add: specified_lib_def codec_inverse_transform_def dec)
  have sl: "str_lower (specified_lib lower) = lower"
    by (simp add: specified_lib_def)
  show ?thesis
    by (simp add: get_response_prediction_def sl t assms(2) p pp it np_max_row [OF sne]
        item0_def)
qed

lemma demo_specified_consistent: "consistent demo_specified"
  by (simp add: consistent_def demo_specified_def codec_fit_def lit_def)

lemma demo_specified_classifier:
  "classifier demo_specified = Some \<lparr>coef = [[1, 0], [0, 1]], intercept = [0, 0]\<rparr>"
  by (simp add: demo_specified_def)

lemma demo_specified_oov:
  "set (terms (vectorizer demo_specified) (ascii_lower (lit ''Xyzxyz''))) \<inter>
   set (vocabulary (vectorizer demo_specified)) = {}"
  by (simp add: demo_specified_def terms_def bigrams_def ascii_lower_def lit_def)

text \<open>
  Two classes with equal biases and a query whose only term is unknown: the first class
  is predicted with confidence 1/2.
\<close>

theorem zero_vector_prediction_witness:
  "vec_transform (specified_lib ascii_lower) (vectorizer demo_specified)
     [ascii_lower (lit ''Xyzxyz'')] = Inr [[0, 0]] \<and>
   get_response_prediction (specified_lib ascii_lower) demo_specified (lit ''Xyzxyz'') =
     Inr (lit ''fees'', 1/2)"
  using zero_vector_prediction
    [where lower = ascii_lower and q = "lit ''Xyzxyz''",
     OF demo_specified_consistent demo_specified_classifier demo_specified_oov]
  apply (simp add: argmax_def softmax_def)
  apply (simp add: demo_specified_def codec_fit_def lit_def)
  done

end
